theory Spec2Isabelle
  imports Complex_Main "HOL-Library.AList"
begin

section \<open>JavaScript numbers, \<open>Math.round\<close> and \<open>Math.ceil\<close>\<close>

text \<open>
  The quantities of the program (record counts, yen amounts, room counts) are integers.
  A quotient \<open>a / b\<close> of two of them is modelled as the exact rational number; for
  operands far below \<open>2^52\<close> in magnitude the double that JavaScript computes rounds to
  the same integer. \<open>Math.round\<close> rounds half-way cases towards plus infinity.
\<close>

definition Math_round :: "rat \<Rightarrow> int" where
  "Math_round x = \<lfloor>x + 1 / 2\<rfloor>"

definition Math_ceil :: "rat \<Rightarrow> int" where
  "Math_ceil x = \<lceil>x\<rceil>"

definition Math_max :: "int \<Rightarrow> int \<Rightarrow> int" where
  "Math_max a b = (if a < b then b else a)"

section \<open>The \<open>Date\<close> object\<close>

text \<open>
  A \<open>Date\<close> holds a time value: milliseconds since 1970-01-01T00:00Z, or NaN for an
  invalid date (\<open>None\<close>). The getters work on local time, which is the time value plus
  the offset of the local time zone at that instant (\<open>localTZA\<close>). Parsing a string in
  the date-only ISO form \<open>YYYY-MM-DD\<close> gives midnight UTC of that day; what any other
  string parses to is left to the JavaScript engine, so it is a parameter
  (\<open>parseOther\<close>) of the environment.
\<close>

type_synonym jsDate = "int option"

record jsEnv =
  localTZA :: "int \<Rightarrow> int"
  parseOther :: "string \<Rightarrow> int option"

definition msPerDay :: int where
  "msPerDay = 86400000"

definition Day :: "int \<Rightarrow> int" where
  "Day t = t div msPerDay"

definition WeekDay :: "int \<Rightarrow> int" where
  "WeekDay t = (Day t + 4) mod 7"

definition LocalTime :: "jsEnv \<Rightarrow> int \<Rightarrow> int" where
  "LocalTime env t = t + localTZA env t"

text \<open>Day number of a proleptic Gregorian date (month 1..12) and back.\<close>

definition daysFromCivil :: "int \<Rightarrow> int \<Rightarrow> int \<Rightarrow> int" where
  "daysFromCivil y m d =
     (let y' = (if m \<le> 2 then y - 1 else y);
          era = y' div 400;
          yoe = y' - era * 400;
          doy = (153 * (if m > 2 then m - 3 else m + 9) + 2) div 5 + d - 1;
          doe = yoe * 365 + yoe div 4 - yoe div 100 + doy
      in era * 146097 + doe - 719468)"

definition civilFromDays :: "int \<Rightarrow> int \<times> int \<times> int" where
  "civilFromDays z0 =
     (let z = z0 + 719468;
          era = z div 146097;
          doe = z - era * 146097;
          yoe = (doe - doe div 1460 + doe div 36524 - doe div 146096) div 365;
          doy = doe - (365 * yoe + yoe div 4 - yoe div 100);
          mp = (5 * doy + 2) div 153;
          d = doy - (153 * mp + 2) div 5 + 1;
          m = (if mp < 10 then mp + 3 else mp - 9);
          y = yoe + era * 400
      in (if m \<le> 2 then y + 1 else y, m, d))"

definition getFullYear :: "jsEnv \<Rightarrow> jsDate \<Rightarrow> int option" where
  "getFullYear env date =
     map_option (\<lambda>t. fst (civilFromDays (Day (LocalTime env t)))) date"

definition getMonth :: "jsEnv \<Rightarrow> jsDate \<Rightarrow> int option" where
  "getMonth env date =
     map_option (\<lambda>t. fst (snd (civilFromDays (Day (LocalTime env t)))) - 1) date"

definition getDate :: "jsEnv \<Rightarrow> jsDate \<Rightarrow> int option" where
  "getDate env date =
     map_option (\<lambda>t. snd (snd (civilFromDays (Day (LocalTime env t))))) date"

definition getDay :: "jsEnv \<Rightarrow> jsDate \<Rightarrow> int option" where
  "getDay env date = map_option (\<lambda>t. WeekDay (LocalTime env t)) date"

text \<open>\<open>a === b\<close> on two numbers: NaN is equal to nothing.\<close>

definition strictEq :: "int option \<Rightarrow> int option \<Rightarrow> bool" where
  "strictEq a b = (case (a, b) of (Some x, Some y) \<Rightarrow> x = y | _ \<Rightarrow> False)"

subsection \<open>Parsing \<open>YYYY-MM-DD\<close>\<close>

definition isDigit :: "char \<Rightarrow> bool" where
  "isDigit c = (48 \<le> (of_char c :: nat) \<and> (of_char c :: nat) \<le> 57)"

definition digitVal :: "char \<Rightarrow> int" where
  "digitVal c = int (of_char c) - 48"

definition decimalVal :: "string \<Rightarrow> int" where
  "decimalVal s = foldl (\<lambda>acc c. 10 * acc + digitVal c) 0 s"

definition isLeapYear :: "int \<Rightarrow> bool" where
  "isLeapYear y = (y mod 4 = 0 \<and> (y mod 100 \<noteq> 0 \<or> y mod 400 = 0))"

definition lengthOfMonth :: "int \<Rightarrow> int \<Rightarrow> int" where
  "lengthOfMonth y m =
     (if m = 2 then (if isLeapYear y then 29 else 28)
      else if m = 4 \<or> m = 6 \<or> m = 9 \<or> m = 11 then 30 else 31)"

definition parseISODate :: "string \<Rightarrow> int option" where
  "parseISODate s =
     (if length s = 10 \<and> s ! 4 = CHR ''-'' \<and> s ! 7 = CHR ''-''
         \<and> list_all isDigit (take 4 s) \<and> list_all isDigit (take 2 (drop 5 s))
         \<and> list_all isDigit (drop 8 s)
      then (let y = decimalVal (take 4 s);
                m = decimalVal (take 2 (drop 5 s));
                d = decimalVal (drop 8 s)
            in if 1 \<le> m \<and> m \<le> 12 \<and> 1 \<le> d \<and> d \<le> lengthOfMonth y m
               then Some (daysFromCivil y m d * msPerDay) else None)
      else None)"

text \<open>\<open>new Date(dateStr)\<close> for a string argument.\<close>

definition newDate :: "jsEnv \<Rightarrow> string \<Rightarrow> jsDate" where
  "newDate env s =
     (case parseISODate s of Some t \<Rightarrow> Some t | None \<Rightarrow> parseOther env s)"

subsection \<open>\<open>String(number)\<close> and \<open>padStart(2, '0')\<close>\<close>

function digitsToString :: "int \<Rightarrow> string" where
  "digitsToString n =
     (if n < 10 then [char_of (48 + n)]
      else digitsToString (n div 10) @ [char_of (48 + n mod 10)])"
  by pat_completeness auto
termination
  by (relation "measure nat") auto

definition numberToString :: "int option \<Rightarrow> string" where
  "numberToString x =
     (case x of None \<Rightarrow> ''NaN''
      | Some i \<Rightarrow> if i < 0 then CHR ''-'' # digitsToString (- i) else digitsToString i)"

definition padStart2 :: "string \<Rightarrow> string" where
  "padStart2 s = replicate (2 - length s) (CHR ''0'') @ s"

section \<open>Holiday table (\<open>utils/holidays.js\<close>)\<close>

text \<open>
  The table of a year is the JSON object sent by the holiday service: date key to holiday
  name. The cache is the module-level \<open>Map\<close> from year to table; NaN is never a key
  of it that holds a table, so a lookup for an invalid date finds nothing.
\<close>

type_synonym holidays = "(string \<times> string) list"

type_synonym yearTables = "int \<rightharpoonup> holidays"

definition formatDate :: "jsEnv \<Rightarrow> jsDate \<Rightarrow> string" where
  "formatDate env date =
     (let year = getFullYear env date;
          month = padStart2 (numberToString (map_option (\<lambda>m. m + 1) (getMonth env date)));
          day = padStart2 (numberToString (getDate env date))
      in numberToString year @ ''-'' @ month @ ''-'' @ day)"

text \<open>The argument of \<open>isHolidaySync\<close> is a \<open>Date\<close> or a string.\<close>

datatype dateArg = DateObject jsDate | DateString string

definition toDate :: "jsEnv \<Rightarrow> dateArg \<Rightarrow> jsDate" where
  "toDate env date = (case date of DateString s \<Rightarrow> newDate env s | DateObject d \<Rightarrow> d)"

definition keyIn :: "string \<Rightarrow> holidays \<Rightarrow> bool" where
  "keyIn k tbl = (k \<in> set (map fst tbl))"

definition isHolidaySync :: "jsEnv \<Rightarrow> yearTables \<Rightarrow> dateArg \<Rightarrow> bool" where
  "isHolidaySync env cache date =
     (let d = toDate env date;
          year = getFullYear env d;
          dateStr = formatDate env d
      in case year of None \<Rightarrow> False
         | Some y \<Rightarrow> (case cache y of None \<Rightarrow> False | Some tbl \<Rightarrow> keyIn dateStr tbl))"

section \<open>Prediction (\<open>utils/prediction.js\<close>)\<close>

text \<open>
  The prediction reads two properties of a history item: \<open>date\<close>, a string, and
  \<open>price\<close>, a number; \<open>None\<close> stands for a price that is missing, null or NaN
  (\<open>item.price || 0\<close> reads all of them, and 0 itself, as 0).

  The \<open>basis\<close> of a result is one of a fixed set of Japanese string literals, all
  non-empty; each is a constructor here:
  \<^item> \<open>NoData\<close>: "no data";
  \<^item> \<open>HolidayAverage\<close>: "past average of holidays";
  \<^item> \<open>HolidaySaturdaySubstitute\<close>: "holiday (substituted with Saturday data)";
  \<^item> \<open>OverallAverage\<close>: "overall average (no weekday data)";
  \<^item> \<open>WeekdayAverage d\<close>: "past average of <day name> days", built from
    \<open>dayNames[dayOfWeek]\<close>.
\<close>

record dayuseItem =
  date :: string
  price :: "int option"

datatype basis =
    NoData
  | HolidayAverage
  | HolidaySaturdaySubstitute
  | OverallAverage
  | WeekdayAverage "int option"

record dailyTotal =
  count :: int
  revenue :: int

record predictionResult =
  count :: int
  revenue :: int
  avgPrice :: int
  hasData :: bool
  basis :: basis

text \<open>
  \<open>dailyTotals\<close> starts as \<open>{}\<close>, an object that inherits the properties of
  \<open>Object.prototype\<close>. Its own properties, keyed by date string, are kept here as an
  association list in insertion order (the sums of \<open>calculateAverage\<close> do not depend on
  the order). For a date string that names an inherited property, \<open>dailyTotals[dateStr]\<close>
  is the inherited value, a function or an object and so truthy: no own property is made,
  \<open>count\<close> and \<open>revenue\<close> are set on the inherited value, and \<open>Object.entries\<close>
  never shows the item.
\<close>

definition objectPrototypeKey :: "string \<Rightarrow> bool" where
  "objectPrototypeKey s =
     (s \<in> set [''constructor'', ''__proto__'', ''hasOwnProperty'', ''isPrototypeOf'',
               ''propertyIsEnumerable'', ''toLocaleString'', ''toString'', ''valueOf'',
               ''__defineGetter__'', ''__defineSetter__'', ''__lookupGetter__'',
               ''__lookupSetter__''])"

text \<open>One step of the \<open>forEach\<close> of \<open>groupByDate\<close>:\<close>

definition orZero :: "int option \<Rightarrow> int" where
  "orZero p = (case p of None \<Rightarrow> 0 | Some n \<Rightarrow> n)"

definition groupStep :: "dayuseItem \<Rightarrow> (string \<times> dailyTotal) list \<Rightarrow> (string \<times> dailyTotal) list" where
  "groupStep item dailyTotals =
     (let dateStr = date item
      in if objectPrototypeKey dateStr then dailyTotals
         else
           (let dailyTotals1 =
                  (if map_of dailyTotals dateStr = None
                   then AList.update dateStr \<lparr>dailyTotal.count = 0, revenue = 0\<rparr> dailyTotals
                   else dailyTotals);
                cur = the (map_of dailyTotals1 dateStr)
            in AList.update dateStr
                 \<lparr>dailyTotal.count = dailyTotal.count cur + 1,
                  revenue = dailyTotal.revenue cur + orZero (price item)\<rparr> dailyTotals1))"

definition groupByDate :: "dayuseItem list \<Rightarrow> (string \<times> dailyTotal) list" where
  "groupByDate dayuseData = fold groupStep dayuseData []"

definition calculateAverage :: "dailyTotal list \<Rightarrow> basis \<Rightarrow> predictionResult" where
  "calculateAverage dailyDataArray b =
     (if length dailyDataArray = 0
      then \<lparr>count = 0, revenue = 0, avgPrice = 0, hasData = False, basis = b\<rparr>
      else
        (let totalCount = foldl (\<lambda>sum d. sum + dailyTotal.count d) 0 dailyDataArray;
             totalRevenue = foldl (\<lambda>sum d. sum + dailyTotal.revenue d) 0 dailyDataArray;
             numDays = int (length dailyDataArray);
             avgCount = Math_round (of_int totalCount / of_int numDays);
             avgRevenue = Math_round (of_int totalRevenue / of_int numDays);
             avgPrice = (if avgCount > 0 then Math_round (of_int avgRevenue / of_int avgCount)
                         else 0)
         in \<lparr>count = avgCount, revenue = avgRevenue, avgPrice = avgPrice,
             hasData = True, basis = b\<rparr>))"

definition predictFromHolidayData ::
  "jsEnv \<Rightarrow> yearTables \<Rightarrow> dayuseItem list \<Rightarrow> predictionResult option" where
  "predictFromHolidayData env cache dayuseData =
     (let dailyTotals = groupByDate dayuseData;
          holidayDays =
            filter (\<lambda>(dateStr, _). isHolidaySync env cache (DateString dateStr)) dailyTotals
      in if length holidayDays = 0 then None
         else Some (calculateAverage (map snd holidayDays) HolidayAverage))"

definition predictFromDayOfWeek ::
  "jsEnv \<Rightarrow> dayuseItem list \<Rightarrow> int option \<Rightarrow> basis option \<Rightarrow> predictionResult" where
  "predictFromDayOfWeek env dayuseData dayOfWeek basisOverride =
     (let dailyTotals = groupByDate dayuseData;
          sameDayData =
            filter (\<lambda>(dateStr, _). strictEq (getDay env (newDate env dateStr)) dayOfWeek)
              dailyTotals
      in if length sameDayData = 0
         then calculateAverage (map snd dailyTotals) OverallAverage
         else calculateAverage (map snd sameDayData)
                (case basisOverride of Some b \<Rightarrow> b | None \<Rightarrow> WeekdayAverage dayOfWeek))"

text \<open>
  \<open>predictDayuseRevenue\<close>; a \<open>dayuseData\<close> that is null or undefined takes the branch
  of the empty array.
\<close>

definition predictDayuseRevenue ::
  "jsEnv \<Rightarrow> yearTables \<Rightarrow> dayuseItem list \<Rightarrow> jsDate \<Rightarrow> predictionResult" where
  "predictDayuseRevenue env cache dayuseData targetDate =
     (if length dayuseData = 0
      then \<lparr>count = 0, revenue = 0, avgPrice = 0, hasData = False, basis = NoData\<rparr>
      else
        (let dayOfWeek = getDay env targetDate;
             isTargetHoliday = isHolidaySync env cache (DateObject targetDate)
         in if isTargetHoliday
            then (case predictFromHolidayData env cache dayuseData of
                    Some holidayPrediction \<Rightarrow> holidayPrediction
                  | None \<Rightarrow>
                      predictFromDayOfWeek env dayuseData (Some 6)
                        (Some HolidaySaturdaySubstitute))
            else predictFromDayOfWeek env dayuseData dayOfWeek None))"

section \<open>Loading the holiday table (\<open>fetchHolidays\<close>)\<close>

text \<open>
  \<open>fetch\<close> either rejects (\<open>None\<close>) or resolves to a response with a status;
  \<open>response.ok\<close> holds for the statuses 200 to 299, and \<open>response.json()\<close> rejects
  when the body is not JSON (\<open>json = None\<close>). The state is the module-level cache,
  with the years requested from the network and the number of \<open>console.error\<close> calls
  recorded beside it. A call is taken as one step: no other call runs between its
  \<open>await\<close>s.
\<close>

record response =
  status :: nat
  json :: "holidays option"

definition ok :: "response \<Rightarrow> bool" where
  "ok r = (200 \<le> status r \<and> status r \<le> 299)"

type_synonym network = "int \<Rightarrow> response option"

record holidayState =
  holidayCache :: yearTables
  requests :: "int list"
  errorLog :: nat

definition fetchHolidays :: "network \<Rightarrow> int \<Rightarrow> holidayState \<Rightarrow> holidays \<times> holidayState" where
  "fetchHolidays net year st =
     (case holidayCache st year of
        Some tbl \<Rightarrow> (tbl, st)
      | None \<Rightarrow>
          (let st1 = st\<lparr>requests := requests st @ [year]\<rparr>;
               failed = ([], st1\<lparr>errorLog := errorLog st1 + 1\<rparr>)
           in case net year of
                None \<Rightarrow> failed
              | Some resp \<Rightarrow>
                  if \<not> ok resp then failed
                  else (case json resp of
                          None \<Rightarrow> failed
                        | Some tbl \<Rightarrow>
                            (tbl, st1\<lparr>holidayCache := (holidayCache st1)(year \<mapsto> tbl)\<rparr>))))"

definition preloadHolidays :: "network \<Rightarrow> int \<Rightarrow> holidayState \<Rightarrow> holidayState" where
  "preloadHolidays net year st = snd (fetchHolidays net year st)"

section \<open>Pricing (\<open>components/Dashboard.jsx\<close>)\<close>

text \<open>
  The derived values of the dashboard, each a function of the values it is computed from.
  A text field read with \<open>parseInt(x) || 0\<close> is given by the result of \<open>parseInt\<close>,
  \<open>None\<close> for NaN. \<open>days\<close> is the day of the month of the month's last day, 28 to 31.
\<close>

definition dailyTarget :: "int \<Rightarrow> int \<Rightarrow> int" where
  "dailyTarget monthlyTarget days =
     (if monthlyTarget > 0 then Math_round (of_int monthlyTarget / of_int days) else 0)"

definition dayuseRevenue :: "int option \<Rightarrow> int option \<Rightarrow> int \<Rightarrow> int" where
  "dayuseRevenue dayuseCount dayuseAvgPrice predictedRevenue =
     (let cnt = orZero dayuseCount;
          avg = orZero dayuseAvgPrice
      in if cnt > 0 \<and> avg > 0 then cnt * avg else predictedRevenue)"

definition remainingRooms :: "int \<Rightarrow> int option \<Rightarrow> int" where
  "remainingRooms totalRooms stayCount =
     (let stay = orZero stayCount in Math_max 1 (totalRooms - stay))"

definition minimumPrice :: "int \<Rightarrow> int \<Rightarrow> int \<Rightarrow> int" where
  "minimumPrice target dayuse rooms =
     (if target \<le> 0 then 0
      else (let requiredRevenue = target - dayuse
            in if requiredRevenue \<le> 0 then 0
               else Math_ceil (of_int requiredRevenue / of_int rooms)))"

section \<open>Stored day-use data (\<open>utils/storage.js\<close>)\<close>

text \<open>
  A stored record is a flat JSON object: property name to a null, boolean, integer or
  string value; reading a property that is absent gives undefined (\<open>None\<close>).
  \<open>{...a, ...b}\<close> is \<open>a ++ b\<close>.

  \<open>localStorage\<close> holds, under the key \<open>dayuse_data\<close>, nothing, text that does not
  parse, or the JSON of an object from hotel id to array of records.
  \<open>localStorage.setItem\<close> throws when the quota is exceeded; \<open>setStorageItem\<close>
  catches that and leaves the stored value as it was.
\<close>

datatype json = JNull | JBool bool | JNum int | JStr string















section \<open>Reference definitions and sample data\<close>

text \<open>
  \<open>namesWeekday env dow s\<close>: the string \<open>s\<close> is a date that falls on the day of week
  \<open>dow\<close> (0 is Sunday). For a \<open>YYYY-MM-DD\<close> string that is the weekday of the
  calendar date it names, whatever the time zone; for any other string it is the local
  weekday of the instant the engine reads it as. The name of a property that objects
  inherit is not a date.
\<close>

definition namesWeekday :: "jsEnv \<Rightarrow> int \<Rightarrow> string \<Rightarrow> bool" where
  "namesWeekday env dow s =
     (\<not> objectPrototypeKey s \<and>
      (case parseISODate s of
         Some t \<Rightarrow> WeekDay t = dow
       | None \<Rightarrow> (case parseOther env s of
                    Some t \<Rightarrow> WeekDay (LocalTime env t) = dow
                  | None \<Rightarrow> False)))"

text \<open>
  The average the specification describes, stated on the history itself: of the items
  whose date is selected, the number of items and the sum of their prices, each divided
  by the number of distinct dates among them and rounded.
\<close>

definition dayAverage_spec :: "(string \<Rightarrow> bool) \<Rightarrow> dayuseItem list \<Rightarrow> basis \<Rightarrow> predictionResult" where
  "dayAverage_spec sel items b =
     (let picked = filter (\<lambda>r. sel (date r)) items;
          numDays = int (card (date ` set picked));
          avgCount = Math_round (of_int (int (length picked)) / of_int numDays);
          avgRevenue = Math_round (of_int (sum_list (map (\<lambda>r. orZero (price r)) picked)) / of_int numDays)
      in \<lparr>count = avgCount, revenue = avgRevenue,
          avgPrice = (if avgCount > 0 then Math_round (of_int avgRevenue / of_int avgCount) else 0),
          hasData = True, basis = b\<rparr>)"

text \<open>
  Sample data: Japan Standard Time (UTC+9, no daylight saving) and US Eastern Standard
  Time (UTC-5), each with an engine that parses nothing but ISO dates; a table of the
  first public holidays of 2024 (the names are placeholders, the program never reads
  them); the two Monday sales of the scenario; a history with sales on two Saturdays and a
  Wednesday; a history with one sale on Saturday 2024-01-06 and one on Sunday 2024-01-07;
  a history of one item whose date is the string \<open>constructor\<close>.
\<close>

definition jst :: jsEnv where
  "jst = \<lparr>localTZA = (\<lambda>t. 32400000), parseOther = (\<lambda>s. None)\<rparr>"

definition est :: jsEnv where
  "est = \<lparr>localTZA = (\<lambda>t. - 18000000), parseOther = (\<lambda>s. None)\<rparr>"

definition holidays2024 :: holidays where
  "holidays2024 =
     [(''2024-01-01'', ''New Year''), (''2024-01-08'', ''Coming of Age Day''),
      (''2024-02-11'', ''Foundation Day''), (''2024-02-12'', ''Foundation Day observed''),
      (''2024-02-23'', ''Emperor Birthday'')]"

definition cache2024 :: yearTables where
  "cache2024 = [2024 \<mapsto> holidays2024]"

definition mondayHistory :: "dayuseItem list" where
  "mondayHistory =
     [\<lparr>date = ''2024-01-08'', price = Some 5000\<rparr>, \<lparr>date = ''2024-01-15'', price = Some 7000\<rparr>]"

definition weekendHistory :: "dayuseItem list" where
  "weekendHistory =
     [\<lparr>date = ''2024-01-06'', price = Some 4000\<rparr>, \<lparr>date = ''2024-01-07'', price = Some 9000\<rparr>]"

definition constructorHistory :: "dayuseItem list" where
  "constructorHistory = [\<lparr>date = ''constructor'', price = Some 100\<rparr>]"

definition saturdayHistory :: "dayuseItem list" where
  "saturdayHistory =
     [\<lparr>date = ''2024-01-06'', price = Some 4000\<rparr>, \<lparr>date = ''2024-01-06'', price = Some 6000\<rparr>,
      \<lparr>date = ''2024-01-13'', price = Some 5000\<rparr>, \<lparr>date = ''2024-01-10'', price = Some 9000\<rparr>]"




text \<open>
  The fetch of a year fails when the network request is rejected, the status is not OK or
  the body is not JSON.
\<close>

definition fetchFails :: "network \<Rightarrow> int \<Rightarrow> bool" where
  "fetchFails net year =
     (case net year of None \<Rightarrow> True | Some resp \<Rightarrow> \<not> ok resp \<or> json resp = None)"

text \<open>
  Sample data for the holiday table: a network that rejects every request, one that serves
  the table of 2024, and the state before any load, after one failed load of 2024, and
  with 2024 loaded.
\<close>

definition offline :: network where
  "offline = (\<lambda>year. None)"

definition online2024 :: network where
  "online2024 = (\<lambda>year. if year = 2024 then Some \<lparr>status = 200, json = Some holidays2024\<rparr>
                         else Some \<lparr>status = 404, json = None\<rparr>)"

definition freshState :: holidayState where
  "freshState = \<lparr>holidayCache = Map.empty, requests = [], errorLog = 0\<rparr>"

definition failedOnce :: holidayState where
  "failedOnce = \<lparr>holidayCache = Map.empty, requests = [2024], errorLog = 1\<rparr>"

definition loadedState :: holidayState where
  "loadedState = \<lparr>holidayCache = cache2024, requests = [2024], errorLog = 0\<rparr>"












section \<open>Rounding\<close>

lemma Math_round_divide:
  assumes "0 < b"
  shows "Math_round (of_int a / of_int b) = (2 * a + b) div (2 * b)"
proof -
  have "(of_int a / of_int b + 1 / 2 :: rat) = of_int (2 * a + b) / of_int (2 * b)"
    using assms by (simp add: field_simps)
  then show ?thesis
    unfolding Math_round_def by (simp only: floor_divide_of_int_eq)
qed

section \<open>Grouping by date\<close>

text \<open>
  The keys of \<open>groupByDate\<close> are the dates of the history that do not name an inherited
  property, each once.
\<close>

lemma keys_groupStep:
  "fst ` set (groupStep x acc) =
     (if objectPrototypeKey (date x) then fst ` set acc else insert (date x) (fst ` set acc))"
  by (auto simp: groupStep_def Let_def dom_update)

lemma keys_fold_groupStep:
  "fst ` set (fold groupStep xs acc) =
     fst ` set acc \<union> date ` {r \<in> set xs. \<not> objectPrototypeKey (date r)}"
  by (induction xs arbitrary: acc) (auto simp: keys_groupStep)

lemma keys_groupByDate:
  "fst ` set (groupByDate xs) = date ` {r \<in> set xs. \<not> objectPrototypeKey (date r)}"
  by (simp add: groupByDate_def keys_fold_groupStep)

lemma distinct_groupStep:
  "distinct (map fst acc) \<Longrightarrow> distinct (map fst (groupStep x acc))"
  by (simp add: groupStep_def Let_def distinct_update)

lemma distinct_fold_groupStep:
  "distinct (map fst acc) \<Longrightarrow> distinct (map fst (fold groupStep xs acc))"
  by (induction xs arbitrary: acc) (auto simp: distinct_groupStep)

lemma distinct_groupByDate: "distinct (map fst (groupByDate xs))"
  by (simp add: groupByDate_def distinct_fold_groupStep)

lemma map_of_groupStep:
  "map_of (groupStep x acc) k =
     (if k = date x \<and> \<not> objectPrototypeKey (date x)
      then Some (case map_of acc k of
                   None \<Rightarrow> \<lparr>dailyTotal.count = 1, revenue = orZero (price x)\<rparr>
                 | Some c \<Rightarrow> \<lparr>dailyTotal.count = dailyTotal.count c + 1,
                              revenue = dailyTotal.revenue c + orZero (price x)\<rparr>)
      else map_of acc k)"
  by (auto simp: groupStep_def Let_def update_conv' split: option.splits)

text \<open>Every daily total counts at least one item.\<close>

lemma count_pos_groupStep:
  assumes "\<forall>(k, d) \<in> set acc. 1 \<le> dailyTotal.count d" "distinct (map fst acc)"
  shows "\<forall>(k, d) \<in> set (groupStep x acc). 1 \<le> dailyTotal.count d"
proof -
  have "1 \<le> dailyTotal.count d" if "(k, d) \<in> set (groupStep x acc)" for k d
  proof -
    have "map_of (groupStep x acc) k = Some d"
      using that distinct_groupStep[OF assms(2)] by simp
    then show ?thesis
      using assms by (auto simp: map_of_groupStep split: if_splits option.splits dest!: map_of_SomeD)
  qed
  then show ?thesis by auto
qed

lemma count_pos_fold:
  "\<forall>(k, d) \<in> set acc. 1 \<le> dailyTotal.count d \<Longrightarrow> distinct (map fst acc)
   \<Longrightarrow> \<forall>(k, d) \<in> set (fold groupStep xs acc). 1 \<le> dailyTotal.count d"
proof (induction xs arbitrary: acc)
  case Nil then show ?case by simp
next
  case (Cons x xs)
  show ?case
    using Cons.IH[OF count_pos_groupStep[OF Cons.prems] distinct_groupStep[OF Cons.prems(2)]]
    by simp
qed

lemma count_pos_groupByDate: "(k, d) \<in> set (groupByDate xs) \<Longrightarrow> 1 \<le> dailyTotal.count d"
  using count_pos_fold[of "[]" xs] by (auto simp: groupByDate_def)

text \<open>
  Over the selected dates, the counts of the daily totals add up to the number of selected
  items that form a group, and the revenues to the sum of their prices.
\<close>

lemma sum_filter_update:
  fixes g :: "'v \<Rightarrow> int"
  shows "sum_list (map (\<lambda>p. g (snd p)) (filter (\<lambda>p. sel (fst p)) (AList.update k v al))) =
         sum_list (map (\<lambda>p. g (snd p)) (filter (\<lambda>p. sel (fst p)) al))
         + (if sel k then g v - (case map_of al k of None \<Rightarrow> 0 | Some u \<Rightarrow> g u) else 0)"
  by (induction al) (auto split: option.splits)

lemma sum_filter_groupStep:
  fixes g :: "dailyTotal \<Rightarrow> int"
  assumes "\<And>c. g \<lparr>dailyTotal.count = dailyTotal.count c + 1, revenue = dailyTotal.revenue c + orZero (price x)\<rparr> = g c + w"
    and "g \<lparr>dailyTotal.count = 0, revenue = 0\<rparr> = 0"
  shows "sum_list (map (\<lambda>p. g (snd p)) (filter (\<lambda>p. sel (fst p)) (groupStep x acc))) =
         sum_list (map (\<lambda>p. g (snd p)) (filter (\<lambda>p. sel (fst p)) acc))
         + (if sel (date x) \<and> \<not> objectPrototypeKey (date x) then w else 0)"
  using assms
  by (auto simp: groupStep_def Let_def sum_filter_update update_conv' split: option.splits)

lemma sum_filter_fold:
  fixes g :: "dailyTotal \<Rightarrow> int"
  assumes "\<And>c x. g \<lparr>dailyTotal.count = dailyTotal.count c + 1, revenue = dailyTotal.revenue c + orZero (price x)\<rparr> = g c + w x"
    and "g \<lparr>dailyTotal.count = 0, revenue = 0\<rparr> = 0"
  shows "sum_list (map (\<lambda>p. g (snd p)) (filter (\<lambda>p. sel (fst p)) (fold groupStep xs acc))) =
         sum_list (map (\<lambda>p. g (snd p)) (filter (\<lambda>p. sel (fst p)) acc))
         + sum_list (map w (filter (\<lambda>r. sel (date r) \<and> \<not> objectPrototypeKey (date r)) xs))"
proof (induction xs arbitrary: acc)
  case Nil then show ?case by simp
next
  case (Cons x xs)
  show ?case
    by (simp add: Cons.IH sum_filter_groupStep[where g = g and w = "w x", OF assms(1) assms(2)])
qed

lemma totalCount_groupByDate:
  "sum_list (map (\<lambda>p. dailyTotal.count (snd p)) (filter (\<lambda>p. sel (fst p)) (groupByDate xs))) =
   int (length (filter (\<lambda>r. sel (date r) \<and> \<not> objectPrototypeKey (date r)) xs))"
  unfolding groupByDate_def
  by (subst sum_filter_fold[where g = dailyTotal.count and w = "\<lambda>r. 1"])
     (simp_all add: sum_list_triv)

lemma totalRevenue_groupByDate:
  "sum_list (map (\<lambda>p. dailyTotal.revenue (snd p)) (filter (\<lambda>p. sel (fst p)) (groupByDate xs))) =
   sum_list (map (\<lambda>r. orZero (price r))
     (filter (\<lambda>r. sel (date r) \<and> \<not> objectPrototypeKey (date r)) xs))"
  unfolding groupByDate_def
  by (subst sum_filter_fold[where g = dailyTotal.revenue and w = "\<lambda>r. orZero (price r)"])
     simp_all

lemma numDays_groupByDate:
  "length (filter (\<lambda>p. sel (fst p)) (groupByDate xs)) =
   card (date ` set (filter (\<lambda>r. sel (date r) \<and> \<not> objectPrototypeKey (date r)) xs))"
proof -
  let ?g = "groupByDate xs"
  have m: "map fst (filter (\<lambda>p. sel (fst p)) ?g) = filter sel (map fst ?g)"
    by (simp add: filter_map comp_def)
  have d: "distinct (filter sel (map fst ?g))"
    by (rule distinct_filter) (rule distinct_groupByDate)
  have s: "set (filter sel (map fst ?g)) =
           date ` set (filter (\<lambda>r. sel (date r) \<and> \<not> objectPrototypeKey (date r)) xs)"
    using keys_groupByDate[of xs] by auto
  have "length (filter (\<lambda>p. sel (fst p)) ?g) = length (map fst (filter (\<lambda>p. sel (fst p)) ?g))"
    by (simp only: length_map)
  also have "\<dots> = card (set (filter sel (map fst ?g)))"
    unfolding m by (rule distinct_card[OF d, symmetric])
  finally show ?thesis unfolding s .
qed

lemma selected_groupByDate_nonempty:
  "filter (\<lambda>p. sel (fst p)) (groupByDate xs) \<noteq> [] \<longleftrightarrow>
   (\<exists>r \<in> set xs. sel (date r) \<and> \<not> objectPrototypeKey (date r))"
proof -
  have "filter (\<lambda>p. sel (fst p)) (groupByDate xs) \<noteq> [] \<longleftrightarrow>
        (\<exists>k \<in> fst ` set (groupByDate xs). sel k)"
    by (auto simp: filter_empty_conv)
  then show ?thesis by (auto simp: keys_groupByDate)
qed

lemma groupByDate_nonempty:
  "groupByDate xs \<noteq> [] \<longleftrightarrow> (\<exists>r \<in> set xs. \<not> objectPrototypeKey (date r))"
proof -
  have "groupByDate xs \<noteq> [] \<longleftrightarrow> fst ` set (groupByDate xs) \<noteq> {}" by auto
  then show ?thesis by (auto simp: keys_groupByDate)
qed

section \<open>Averaging\<close>

lemma foldl_add: "foldl (\<lambda>s d. s + f d) a xs = (a::int) + sum_list (map f xs)"
  by (induction xs arbitrary: a) auto

lemma sum_list_ge_length:
  "\<forall>d \<in> set xs. (1::int) \<le> f d \<Longrightarrow> int (length xs) \<le> sum_list (map f xs)"
  by (induction xs) auto

lemma calculateAverage_count_pos:
  assumes "xs \<noteq> []" "\<forall>d \<in> set xs. 1 \<le> dailyTotal.count d"
  shows "1 \<le> count (calculateAverage xs b)"
proof -
  let ?n = "int (length xs)"
  let ?T = "sum_list (map dailyTotal.count xs)"
  have n: "0 < ?n" using assms(1) by simp
  have T: "?n \<le> ?T" using sum_list_ge_length[OF assms(2)] .
  have "count (calculateAverage xs b) = Math_round (of_int ?T / of_int ?n)"
    using assms(1) by (simp add: calculateAverage_def Let_def foldl_add)
  also have "\<dots> = (2 * ?T + ?n) div (2 * ?n)" by (rule Math_round_divide[OF n])
  also have "\<dots> \<ge> 1"
  proof -
    have "2 * ?n \<le> 2 * ?T + ?n" using T n by linarith
    then have "(2 * ?n) div (2 * ?n) \<le> (2 * ?T + ?n) div (2 * ?n)"
      using n by (intro zdiv_mono1) auto
    then show ?thesis using n by simp
  qed
  finally show ?thesis .
qed

lemma calculateAverage_shape:
  "(0 < count (calculateAverage xs b) \<longrightarrow>
      avgPrice (calculateAverage xs b) =
        Math_round (of_int (revenue (calculateAverage xs b)) / of_int (count (calculateAverage xs b))))
   \<and> (\<not> 0 < count (calculateAverage xs b) \<longrightarrow> avgPrice (calculateAverage xs b) = 0)
   \<and> (\<not> hasData (calculateAverage xs b) \<longrightarrow>
        count (calculateAverage xs b) = 0 \<and> revenue (calculateAverage xs b) = 0
        \<and> avgPrice (calculateAverage xs b) = 0)"
  by (simp add: calculateAverage_def Let_def)


lemma calculateAverage_groupByDate:
  assumes "\<exists>r \<in> set xs. sel (date r)" and "\<And>k. sel k \<Longrightarrow> \<not> objectPrototypeKey k"
  shows "calculateAverage (map snd (filter (\<lambda>(k, d). sel k) (groupByDate xs))) b =
         dayAverage_spec sel xs b"
proof -
  have eq: "(\<lambda>(k, d). sel k) = (\<lambda>p :: string \<times> dailyTotal. sel (fst p))"
    by (simp add: case_prod_unfold)
  have f: "(\<lambda>r. sel (date r) \<and> \<not> objectPrototypeKey (date r)) = (\<lambda>r. sel (date r))"
    using assms(2) by auto
  have ne: "filter (\<lambda>p. sel (fst p)) (groupByDate xs) \<noteq> []"
    using assms by (simp only: selected_groupByDate_nonempty f)
  show ?thesis
    unfolding eq using ne assms(1)
    by (auto simp: calculateAverage_def dayAverage_spec_def Let_def foldl_add comp_def
        totalCount_groupByDate totalRevenue_groupByDate numDays_groupByDate f)
qed

section \<open>The result of a prediction\<close>

text \<open>
  A prediction is the fixed "no data" result, for the empty history, or the average of a
  list of daily totals of the history, which is not empty when the history forms a group.
\<close>

lemma predict_cases:
  "predictDayuseRevenue env cache h t =
      \<lparr>count = 0, revenue = 0, avgPrice = 0, hasData = False, basis = NoData\<rparr> \<and> h = []
   \<or> (\<exists>xs b. (groupByDate h \<noteq> [] \<longrightarrow> xs \<noteq> []) \<and> set xs \<subseteq> snd ` set (groupByDate h)
         \<and> h \<noteq> [] \<and> predictDayuseRevenue env cache h t = calculateAverage xs b)"
proof (cases "h = []")
  case True
  then show ?thesis by (simp add: predictDayuseRevenue_def)
next
  case False
  have dow: "\<exists>xs b. (groupByDate h \<noteq> [] \<longrightarrow> xs \<noteq> []) \<and> set xs \<subseteq> snd ` set (groupByDate h)
               \<and> predictFromDayOfWeek env h d ov = calculateAverage xs b" for d ov
  proof (cases "filter (\<lambda>(dateStr, _). strictEq (getDay env (newDate env dateStr)) d) (groupByDate h) = []")
    case True
    then have "predictFromDayOfWeek env h d ov = calculateAverage (map snd (groupByDate h)) OverallAverage"
      by (simp add: predictFromDayOfWeek_def Let_def)
    then show ?thesis by (intro exI[of _ "map snd (groupByDate h)"] exI[of _ OverallAverage]) auto
  next
    case False
    let ?xs = "filter (\<lambda>(dateStr, _). strictEq (getDay env (newDate env dateStr)) d) (groupByDate h)"
    have "predictFromDayOfWeek env h d ov =
          calculateAverage (map snd ?xs) (case ov of Some b \<Rightarrow> b | None \<Rightarrow> WeekdayAverage d)"
      using False by (simp add: predictFromDayOfWeek_def Let_def)
    then show ?thesis using False
      by (intro exI[of _ "map snd ?xs"] exI[of _ "case ov of Some b \<Rightarrow> b | None \<Rightarrow> WeekdayAverage d"]) auto
  qed
  have hol: "\<exists>xs b. (groupByDate h \<noteq> [] \<longrightarrow> xs \<noteq> []) \<and> set xs \<subseteq> snd ` set (groupByDate h)
               \<and> r = calculateAverage xs b"
    if "predictFromHolidayData env cache h = Some r" for r
  proof -
    let ?xs = "filter (\<lambda>(dateStr, _). isHolidaySync env cache (DateString dateStr)) (groupByDate h)"
    from that have "?xs \<noteq> []" "r = calculateAverage (map snd ?xs) HolidayAverage"
      by (auto simp: predictFromHolidayData_def Let_def split: if_splits)
    then show ?thesis
      by (intro exI[of _ "map snd ?xs"] exI[of _ HolidayAverage]) auto
  qed
  show ?thesis
    using False dow hol
    by (auto simp: predictDayuseRevenue_def Let_def split: option.splits)
qed

section \<open>Dates of the sample data\<close>

lemma newDate_ISO: "parseISODate s = Some t \<Longrightarrow> newDate env s = Some t"
  by (simp add: newDate_def)

lemma Day_LocalTime_midnight:
  assumes "0 \<le> localTZA env (d * msPerDay)" "localTZA env (d * msPerDay) < msPerDay"
  shows "Day (LocalTime env (d * msPerDay)) = d"
proof -
  have "(d * msPerDay + localTZA env (d * msPerDay)) div msPerDay = d"
    using assms by (simp add: msPerDay_def div_pos_pos_trivial)
  then show ?thesis by (simp add: Day_def LocalTime_def)
qed

lemma parseISODate_midnight: "parseISODate s = Some t \<Longrightarrow> \<exists>d. t = d * msPerDay"
  by (auto simp: parseISODate_def Let_def split: if_splits)

lemma ISO_not_inherited: "parseISODate s = Some t \<Longrightarrow> \<not> objectPrototypeKey s"
  by (auto simp: objectPrototypeKey_def parseISODate_def)

lemma Day_midnight: "Day (d * msPerDay) = d"
  by (simp add: Day_def msPerDay_def)

text \<open>
  At or ahead of UTC the weekday the program reads from a date string that forms a group
  is the weekday of the date.
\<close>

lemma getDay_namesWeekday:
  assumes tz: "\<forall>t. 0 \<le> localTZA env t \<and> localTZA env t < msPerDay"
    and key: "\<not> objectPrototypeKey s"
  shows "strictEq (getDay env (newDate env s)) (Some dow) = namesWeekday env dow s"
proof (cases "parseISODate s")
  case None
  then show ?thesis using key
    by (simp add: newDate_def namesWeekday_def getDay_def strictEq_def split: option.splits)
next
  case (Some t)
  then obtain d where t: "t = d * msPerDay" using parseISODate_midnight by blast
  have "Day (LocalTime env t) = Day t"
    using tz Day_LocalTime_midnight[of env d] by (simp add: t Day_midnight)
  then have "WeekDay (LocalTime env t) = WeekDay t" by (simp add: WeekDay_def)
  then show ?thesis using Some key
    by (simp add: newDate_def namesWeekday_def getDay_def strictEq_def)
qed

lemma namesWeekday_ISO:
  "parseISODate s = Some t \<Longrightarrow> namesWeekday env dow s = (WeekDay t = dow)"
  using ISO_not_inherited[of s t] by (simp add: namesWeekday_def)

lemma isHolidaySync_ISO:
  "parseISODate s = Some t \<Longrightarrow>
   isHolidaySync env cache (DateString s) = isHolidaySync env cache (DateObject (Some t))"
  by (simp add: isHolidaySync_def toDate_def newDate_ISO)

lemma getDay_ISO:
  assumes "\<forall>t. 0 \<le> localTZA env t \<and> localTZA env t < msPerDay"
    and "parseISODate s = Some (d * msPerDay)"
  shows "getDay env (newDate env s) = Some ((d + 4) mod 7)"
  using assms Day_LocalTime_midnight[of env d]
  by (simp add: newDate_ISO getDay_def WeekDay_def)

lemma isHolidaySync_Date:
  assumes "Day (LocalTime env t) = d" "civilFromDays d = (y, m, dd)"
  shows "isHolidaySync env cache (DateObject (Some t)) =
           (case cache y of None \<Rightarrow> False
            | Some tbl \<Rightarrow>
                keyIn (numberToString (Some y) @ ''-'' @ padStart2 (numberToString (Some (m - 1 + 1)))
                       @ ''-'' @ padStart2 (numberToString (Some dd))) tbl)"
  using assms
  by (simp add: isHolidaySync_def toDate_def formatDate_def getFullYear_def getMonth_def
      getDate_def Let_def split: option.splits)

lemma isHolidaySync_String:
  assumes "\<forall>t. 0 \<le> localTZA env t \<and> localTZA env t < msPerDay"
    and "parseISODate s = Some (d * msPerDay)" "civilFromDays d = (y, m, dd)"
  shows "isHolidaySync env cache (DateString s) =
           (case cache y of None \<Rightarrow> False
            | Some tbl \<Rightarrow>
                keyIn (numberToString (Some y) @ ''-'' @ padStart2 (numberToString (Some (m - 1 + 1)))
                       @ ''-'' @ padStart2 (numberToString (Some dd))) tbl)"
proof -
  have "isHolidaySync env cache (DateString s) = isHolidaySync env cache (DateObject (Some (d * msPerDay)))"
    using assms(2) by (simp add: isHolidaySync_def toDate_def newDate_ISO)
  then show ?thesis
    using isHolidaySync_Date[OF Day_LocalTime_midnight assms(3), of env cache] assms(1) by simp
qed

lemma jst_tz: "0 \<le> localTZA jst t \<and> localTZA jst t < msPerDay"
  by (simp add: jst_def msPerDay_def)

lemma parse_0108: "parseISODate ''2024-01-08'' = Some (19730 * msPerDay)"
  by code_simp

lemma parse_0115: "parseISODate ''2024-01-15'' = Some (19737 * msPerDay)"
  by code_simp

lemma parse_0106: "parseISODate ''2024-01-06'' = Some (19728 * msPerDay)"
  by code_simp

lemma parse_0113: "parseISODate ''2024-01-13'' = Some (19735 * msPerDay)"
  by code_simp

lemma parse_0110: "parseISODate ''2024-01-10'' = Some (19732 * msPerDay)"
  by code_simp
lemma parse_0107: "parseISODate ''2024-01-07'' = Some (19729 * msPerDay)"
  by code_simp

lemma civil_19730: "civilFromDays 19730 = (2024, 1, 8)" by code_simp

lemma civil_19744: "civilFromDays 19744 = (2024, 1, 22)" by code_simp

lemma civil_19728: "civilFromDays 19728 = (2024, 1, 6)" by code_simp

lemma civil_19735: "civilFromDays 19735 = (2024, 1, 13)" by code_simp

lemma civil_19732: "civilFromDays 19732 = (2024, 1, 10)" by code_simp

lemma group_monday:
  "groupByDate mondayHistory =
     [(''2024-01-08'', \<lparr>dailyTotal.count = 1, revenue = 5000\<rparr>),
      (''2024-01-15'', \<lparr>dailyTotal.count = 1, revenue = 7000\<rparr>)]"
  by (simp add: groupByDate_def groupStep_def mondayHistory_def orZero_def objectPrototypeKey_def)

lemma group_saturday:
  "groupByDate saturdayHistory =
     [(''2024-01-06'', \<lparr>dailyTotal.count = 2, revenue = 10000\<rparr>),
      (''2024-01-13'', \<lparr>dailyTotal.count = 1, revenue = 5000\<rparr>),
      (''2024-01-10'', \<lparr>dailyTotal.count = 1, revenue = 9000\<rparr>)]"
  by (simp add: groupByDate_def groupStep_def saturdayHistory_def orZero_def
      objectPrototypeKey_def)

lemma group_weekend:
  "groupByDate weekendHistory =
     [(''2024-01-06'', \<lparr>dailyTotal.count = 1, revenue = 4000\<rparr>),
      (''2024-01-07'', \<lparr>dailyTotal.count = 1, revenue = 9000\<rparr>)]"
  by (simp add: groupByDate_def groupStep_def weekendHistory_def orZero_def
      objectPrototypeKey_def)

lemma group_constructor: "groupByDate constructorHistory = []"
  by (simp add: groupByDate_def groupStep_def constructorHistory_def objectPrototypeKey_def)

lemma avg_monday:
  "calculateAverage [\<lparr>dailyTotal.count = 1, revenue = 5000\<rparr>, \<lparr>dailyTotal.count = 1, revenue = 7000\<rparr>] b
   = \<lparr>count = 1, revenue = 6000, avgPrice = 6000, hasData = True, basis = b\<rparr>"
  by code_simp

lemma avg_saturday:
  "calculateAverage [\<lparr>dailyTotal.count = 2, revenue = 10000\<rparr>, \<lparr>dailyTotal.count = 1, revenue = 5000\<rparr>] b
   = \<lparr>count = 2, revenue = 7500, avgPrice = 3750, hasData = True, basis = b\<rparr>"
  by code_simp

lemma monday_prediction:
  assumes tz: "\<forall>t. 0 \<le> localTZA env t \<and> localTZA env t < msPerDay"
    and tgt: "Day (LocalTime env t) = daysFromCivil 2024 1 22"
    and nh: "\<not> isHolidaySync env cache (DateObject (Some t))"
  shows "predictDayuseRevenue env cache mondayHistory (Some t) =
           \<lparr>count = 1, revenue = 6000, avgPrice = 6000, hasData = True,
            basis = WeekdayAverage (Some 1)\<rparr>"
proof -
  have d: "daysFromCivil 2024 1 22 = 19744" by code_simp
  have dow: "getDay env (Some t) = Some 1"
    using tgt by (simp add: getDay_def WeekDay_def d)
  have a: "getDay env (newDate env ''2024-01-08'') = Some 1"
    using getDay_ISO[OF tz parse_0108] by simp
  have b: "getDay env (newDate env ''2024-01-15'') = Some 1"
    using getDay_ISO[OF tz parse_0115] by simp
  have ne: "mondayHistory \<noteq> []" by (simp add: mondayHistory_def)
  show ?thesis
    using ne nh
    by (simp add: predictDayuseRevenue_def predictFromDayOfWeek_def Let_def dow group_monday
        a b strictEq_def avg_monday)
qed

lemma target_0122: "Day (LocalTime jst 1705885200000) = daysFromCivil 2024 1 22"
  by code_simp

lemma target_0122_day: "Day (LocalTime jst 1705885200000) = 19744"
  by code_simp

lemma target_0122_not_holiday: "\<not> isHolidaySync jst cache2024 (DateObject (Some 1705885200000))"
  by (simp add: isHolidaySync_Date[OF target_0122_day civil_19744] cache2024_def
      numberToString_def padStart2_def char_of_def keyIn_def holidays2024_def)

lemma monday_value:
  "predictDayuseRevenue jst cache2024 mondayHistory (Some 1705885200000) =
     \<lparr>count = 1, revenue = 6000, avgPrice = 6000, hasData = True,
      basis = WeekdayAverage (Some 1)\<rparr>"
  using monday_prediction[OF _ target_0122 target_0122_not_holiday] jst_tz by blast

lemma target_0108_day: "Day (LocalTime jst 1704675600000) = 19730"
  by code_simp

lemma target_0108_holiday: "isHolidaySync jst cache2024 (DateObject (Some 1704675600000))"
  by (simp add: isHolidaySync_Date[OF target_0108_day civil_19730] cache2024_def
      numberToString_def padStart2_def char_of_def keyIn_def holidays2024_def)

lemma saturday_no_holiday:
  "\<forall>r \<in> set saturdayHistory. \<not> isHolidaySync jst cache2024 (DateString (date r))"
proof -
  have tz: "\<forall>t. 0 \<le> localTZA jst t \<and> localTZA jst t < msPerDay" using jst_tz by blast
  have "\<not> isHolidaySync jst cache2024 (DateString ''2024-01-06'')"
    by (simp add: isHolidaySync_String[OF tz parse_0106 civil_19728] cache2024_def
      numberToString_def padStart2_def char_of_def keyIn_def holidays2024_def)
  moreover have "\<not> isHolidaySync jst cache2024 (DateString ''2024-01-13'')"
    by (simp add: isHolidaySync_String[OF tz parse_0113 civil_19735] cache2024_def
      numberToString_def padStart2_def char_of_def keyIn_def holidays2024_def)
  moreover have "\<not> isHolidaySync jst cache2024 (DateString ''2024-01-10'')"
    by (simp add: isHolidaySync_String[OF tz parse_0110 civil_19732] cache2024_def
      numberToString_def padStart2_def char_of_def keyIn_def holidays2024_def)
  ultimately show ?thesis by (simp add: saturdayHistory_def)
qed

lemma weekday_19728: "WeekDay (19728 * msPerDay) = 6" by code_simp
lemma weekday_19735: "WeekDay (19735 * msPerDay) = 6" by code_simp
lemma weekday_19732: "WeekDay (19732 * msPerDay) = 3" by code_simp
lemma weekday_19729: "WeekDay (19729 * msPerDay) = 0" by code_simp

lemma saturday_names:
  "namesWeekday env 6 ''2024-01-06''" "namesWeekday env 6 ''2024-01-13''"
  "\<not> namesWeekday env 6 ''2024-01-10''" "\<not> namesWeekday env 6 ''2024-01-07''"
  by (simp_all add: namesWeekday_ISO[OF parse_0106] namesWeekday_ISO[OF parse_0113]
      namesWeekday_ISO[OF parse_0110] namesWeekday_ISO[OF parse_0107]
      weekday_19728 weekday_19735 weekday_19732 weekday_19729)

lemma saturday_exists: "\<exists>r \<in> set saturdayHistory. namesWeekday jst 6 (date r)"
  by (simp add: saturdayHistory_def saturday_names)

lemma saturday_average:
  "calculateAverage
     (map snd (filter (\<lambda>(dateStr, _). namesWeekday jst 6 dateStr) (groupByDate saturdayHistory)))
     HolidaySaturdaySubstitute =
   \<lparr>count = 2, revenue = 7500, avgPrice = 3750, hasData = True,
    basis = HolidaySaturdaySubstitute\<rparr>"
  by (simp add: group_saturday saturday_names avg_saturday)

text \<open>
  The same dates five hours behind UTC: midnight UTC of a day is the evening of the day
  before.
\<close>

lemma est_local_days:
  "Day (LocalTime est 1704733200000) = 19730"
  "Day (LocalTime est (19728 * msPerDay)) = 19727"
  "Day (LocalTime est (19729 * msPerDay)) = 19728"
  by code_simp+

lemma civil_19727: "civilFromDays 19727 = (2024, 1, 5)" by code_simp

lemma est_weekdays:
  "WeekDay (LocalTime est (19728 * msPerDay)) = 5"
  "WeekDay (LocalTime est (19729 * msPerDay)) = 6"
  by code_simp+

lemma est_target_holiday: "isHolidaySync est cache2024 (DateObject (Some 1704733200000))"
  by (simp add: isHolidaySync_Date[OF est_local_days(1) civil_19730] cache2024_def
      numberToString_def padStart2_def char_of_def keyIn_def holidays2024_def)

lemma est_weekend_no_holiday:
  "\<not> isHolidaySync est cache2024 (DateString ''2024-01-06'')"
  "\<not> isHolidaySync est cache2024 (DateString ''2024-01-07'')"
  by (simp_all add: isHolidaySync_ISO[OF parse_0106] isHolidaySync_ISO[OF parse_0107]
      isHolidaySync_Date[OF est_local_days(2) civil_19727]
      isHolidaySync_Date[OF est_local_days(3) civil_19728] cache2024_def
      numberToString_def padStart2_def char_of_def keyIn_def holidays2024_def)

lemma est_weekend_prediction:
  "predictDayuseRevenue est cache2024 weekendHistory (Some 1704733200000) =
     \<lparr>count = 1, revenue = 9000, avgPrice = 9000, hasData = True,
      basis = HolidaySaturdaySubstitute\<rparr>"
proof -
  have ne: "weekendHistory \<noteq> []" by (simp add: weekendHistory_def)
  have a: "getDay est (newDate est ''2024-01-06'') = Some 5"
    by (simp add: newDate_ISO[OF parse_0106] getDay_def est_weekdays)
  have b: "getDay est (newDate est ''2024-01-07'') = Some 6"
    by (simp add: newDate_ISO[OF parse_0107] getDay_def est_weekdays)
  have avg: "calculateAverage [\<lparr>dailyTotal.count = 1, revenue = 9000\<rparr>] HolidaySaturdaySubstitute =
      \<lparr>count = 1, revenue = 9000, avgPrice = 9000, hasData = True,
       basis = HolidaySaturdaySubstitute\<rparr>"
    by code_simp
  have hol: "predictFromHolidayData est cache2024 weekendHistory = None"
    by (simp add: predictFromHolidayData_def group_weekend est_weekend_no_holiday)
  show ?thesis
    using ne est_target_holiday
    by (simp add: predictDayuseRevenue_def hol predictFromDayOfWeek_def group_weekend a b
        strictEq_def avg)
qed

lemma constructor_prediction:
  "predictDayuseRevenue jst cache2024 constructorHistory (Some 1705885200000) =
     \<lparr>count = 0, revenue = 0, avgPrice = 0, hasData = False, basis = OverallAverage\<rparr>"
proof -
  have ne: "constructorHistory \<noteq> []" by (simp add: constructorHistory_def)
  show ?thesis
    using ne target_0122_not_holiday
    by (simp add: predictDayuseRevenue_def predictFromDayOfWeek_def group_constructor
        calculateAverage_def)
qed

lemma sample_histories_grouped:
  "list_all (\<lambda>r. \<not> objectPrototypeKey (date r)) mondayHistory"
  "list_all (\<lambda>r. \<not> objectPrototypeKey (date r)) []"
  "list_ex (\<lambda>r. \<not> objectPrototypeKey (date r)) mondayHistory"
  "list_all (\<lambda>r. objectPrototypeKey (date r)) constructorHistory"
  by (simp_all add: mondayHistory_def constructorHistory_def objectPrototypeKey_def)

section \<open>Claims about the prediction\<close>

text \<open>
  Claim C1, as amended. The history of the scenario has one sale on each of two Mondays,
  so each daily total has count 1: for a target on 2024-01-22 (local date) that the
  classifier does not hold for a holiday, in a time zone at or ahead of UTC, the
  prediction is count 1, revenue 6000, average price 6000, with data, on the basis
  "Monday average". The ids of the two records play no part in a prediction.
\<close>

theorem monday_scenario:
  assumes "\<forall>t. 0 \<le> localTZA env t \<and> localTZA env t < msPerDay"
    and "Day (LocalTime env t) = daysFromCivil 2024 1 22"
    and "\<not> isHolidaySync env cache (DateObject (Some t))"
  shows "predictDayuseRevenue env cache mondayHistory (Some t) =
           \<lparr>count = 1, revenue = 6000, avgPrice = 6000, hasData = True,
            basis = WeekdayAverage (Some 1)\<rparr>"
  using assms by (rule monday_prediction)

theorem monday_scenario_witness:
  "(\<forall>t. 0 \<le> localTZA jst t \<and> localTZA jst t < msPerDay)
   \<and> Day (LocalTime jst 1705885200000) = daysFromCivil 2024 1 22
   \<and> \<not> isHolidaySync jst cache2024 (DateObject (Some 1705885200000))
   \<and> predictDayuseRevenue jst cache2024 mondayHistory (Some 1705885200000) =
       \<lparr>count = 1, revenue = 6000, avgPrice = 6000, hasData = True,
        basis = WeekdayAverage (Some 1)\<rparr>"
proof -
  have tz: "\<forall>t. 0 \<le> localTZA jst t \<and> localTZA jst t < msPerDay"
    using jst_tz by blast
  show ?thesis
    using tz target_0122 target_0122_not_holiday
      monday_scenario[OF tz target_0122 target_0122_not_holiday]
    by simp
qed

text \<open>
  Claim C1 as stated (count 2, revenue 6000, average price 3000) fails: at 10:00 Japan
  time on 2024-01-22 the prediction for the scenario's history is not that result.
\<close>

theorem monday_scenario_counterexample:
  "\<not> (count (predictDayuseRevenue jst cache2024 mondayHistory (Some 1705885200000)) = 2
      \<and> revenue (predictDayuseRevenue jst cache2024 mondayHistory (Some 1705885200000)) = 6000
      \<and> avgPrice (predictDayuseRevenue jst cache2024 mondayHistory (Some 1705885200000)) = 3000
      \<and> hasData (predictDayuseRevenue jst cache2024 mondayHistory (Some 1705885200000)))"
  by (simp add: monday_value)

text \<open>
  Claim C2. In every result of \<open>predictDayuseRevenue\<close> the average price is the rounded
  quotient of revenue by count when the count is positive and 0 otherwise, and a result
  without data has count, revenue and average price 0.
\<close>

theorem predict_result_invariant:
  "(0 < count (predictDayuseRevenue env cache h t) \<longrightarrow>
      avgPrice (predictDayuseRevenue env cache h t) =
        Math_round (of_int (revenue (predictDayuseRevenue env cache h t))
                    / of_int (count (predictDayuseRevenue env cache h t))))
   \<and> (\<not> 0 < count (predictDayuseRevenue env cache h t) \<longrightarrow>
        avgPrice (predictDayuseRevenue env cache h t) = 0)
   \<and> (\<not> hasData (predictDayuseRevenue env cache h t) \<longrightarrow>
        count (predictDayuseRevenue env cache h t) = 0
        \<and> revenue (predictDayuseRevenue env cache h t) = 0
        \<and> avgPrice (predictDayuseRevenue env cache h t) = 0)"
  using predict_cases[of env cache h t] calculateAverage_shape
  by (elim disjE exE conjE) (simp, metis)

theorem predict_result_invariant_witness:
  "0 < count (predictDayuseRevenue jst cache2024 mondayHistory (Some 1705885200000))
   \<and> avgPrice (predictDayuseRevenue jst cache2024 mondayHistory (Some 1705885200000)) =
       Math_round (of_int (revenue (predictDayuseRevenue jst cache2024 mondayHistory (Some 1705885200000)))
                   / of_int (count (predictDayuseRevenue jst cache2024 mondayHistory (Some 1705885200000))))
   \<and> \<not> 0 < count (predictDayuseRevenue jst cache2024 [] (Some 1705885200000))
   \<and> \<not> hasData (predictDayuseRevenue jst cache2024 [] (Some 1705885200000))
   \<and> count (predictDayuseRevenue jst cache2024 [] (Some 1705885200000)) = 0
   \<and> revenue (predictDayuseRevenue jst cache2024 [] (Some 1705885200000)) = 0
   \<and> avgPrice (predictDayuseRevenue jst cache2024 [] (Some 1705885200000)) = 0"
proof -
  have a: "0 < count (predictDayuseRevenue jst cache2024 mondayHistory (Some 1705885200000))"
    by (simp add: monday_value)
  have b: "\<not> hasData (predictDayuseRevenue jst cache2024 [] (Some 1705885200000))"
    by (simp add: predictDayuseRevenue_def)
  have c: "\<not> 0 < count (predictDayuseRevenue jst cache2024 [] (Some 1705885200000))"
    by (simp add: predictDayuseRevenue_def)
  show ?thesis
    using a b c predict_result_invariant[of jst cache2024 mondayHistory "Some 1705885200000"]
      predict_result_invariant[of jst cache2024 "[]" "Some 1705885200000"]
    by simp
qed




text \<open>
  Claim C4, as amended. In a time zone at or ahead of UTC: when the target date is
  classified as a holiday, no record of the history is dated on a day classified as a
  holiday and some record is dated on a Saturday, the prediction is the average over the
  Saturdays of the history (the rounded number of sales and revenue per Saturday date),
  computed from the daily totals of the Saturday dates, and its basis says that Saturday
  data stand in for the holiday.
\<close>

theorem holiday_falls_back_to_saturday:
  assumes "\<forall>t. 0 \<le> localTZA env t \<and> localTZA env t < msPerDay"
    and "isHolidaySync env cache (DateObject targetDate)"
    and "\<forall>r \<in> set h. \<not> isHolidaySync env cache (DateString (date r))"
    and "\<exists>r \<in> set h. namesWeekday env 6 (date r)"
  shows "predictDayuseRevenue env cache h targetDate =
           dayAverage_spec (namesWeekday env 6) h HolidaySaturdaySubstitute
         \<and> predictDayuseRevenue env cache h targetDate =
           calculateAverage
             (map snd (filter (\<lambda>(dateStr, _). namesWeekday env 6 dateStr) (groupByDate h)))
             HolidaySaturdaySubstitute"
proof -
  have ne: "h \<noteq> []" using assms(4) by auto
  have "filter (\<lambda>(dateStr, _). isHolidaySync env cache (DateString dateStr)) (groupByDate h) = []"
  proof -
    have "\<not> isHolidaySync env cache (DateString (fst p))" if "p \<in> set (groupByDate h)" for p
    proof -
      have "fst p \<in> date ` set h" using that keys_groupByDate[of h] by force
      then show ?thesis using assms(3) by auto
    qed
    then show ?thesis by (auto simp: filter_empty_conv)
  qed
  then have hol: "predictFromHolidayData env cache h = None"
    by (simp add: predictFromHolidayData_def Let_def)
  have sel: "filter (\<lambda>(dateStr, _). strictEq (getDay env (newDate env dateStr)) (Some 6))
               (groupByDate h)
             = filter (\<lambda>(dateStr, _). namesWeekday env 6 dateStr) (groupByDate h)"
  proof (rule filter_cong[OF refl])
    fix p assume "p \<in> set (groupByDate h)"
    then have "\<not> objectPrototypeKey (fst p)" using keys_groupByDate[of h] by force
    then show "(case p of (dateStr, _) \<Rightarrow> strictEq (getDay env (newDate env dateStr)) (Some 6))
               = (case p of (dateStr, _) \<Rightarrow> namesWeekday env 6 dateStr)"
      using getDay_namesWeekday[OF assms(1), of "fst p" 6] by (simp add: case_prod_unfold)
  qed
  have imp: "\<And>k. namesWeekday env 6 k \<Longrightarrow> \<not> objectPrototypeKey k"
    by (simp add: namesWeekday_def)
  have "\<exists>r \<in> set h. namesWeekday env 6 (date r) \<and> \<not> objectPrototypeKey (date r)"
    using assms(4) imp by blast
  then have sat: "filter (\<lambda>(dateStr, _). namesWeekday env 6 dateStr) (groupByDate h) \<noteq> []"
    using selected_groupByDate_nonempty[of "namesWeekday env 6" h]
    by (simp add: case_prod_unfold)
  have p: "predictDayuseRevenue env cache h targetDate =
        calculateAverage
          (map snd (filter (\<lambda>(dateStr, _). namesWeekday env 6 dateStr) (groupByDate h)))
          HolidaySaturdaySubstitute"
    using ne assms(2) hol sat
    by (simp add: predictDayuseRevenue_def predictFromDayOfWeek_def Let_def sel)
  show ?thesis
    using p calculateAverage_groupByDate[OF assms(4) imp, of HolidaySaturdaySubstitute] by simp
qed

theorem holiday_falls_back_to_saturday_witness:
  "(\<forall>t. 0 \<le> localTZA jst t \<and> localTZA jst t < msPerDay)
   \<and> isHolidaySync jst cache2024 (DateObject (Some 1704675600000))
   \<and> list_all (\<lambda>r. \<not> isHolidaySync jst cache2024 (DateString (date r))) saturdayHistory
   \<and> list_ex (\<lambda>r. namesWeekday jst 6 (date r)) saturdayHistory
   \<and> predictDayuseRevenue jst cache2024 saturdayHistory (Some 1704675600000) =
       \<lparr>count = 2, revenue = 7500, avgPrice = 3750, hasData = True,
        basis = HolidaySaturdaySubstitute\<rparr>"
proof -
  have tz: "\<forall>t. 0 \<le> localTZA jst t \<and> localTZA jst t < msPerDay"
    using jst_tz by blast
  have "predictDayuseRevenue jst cache2024 saturdayHistory (Some 1704675600000) =
          calculateAverage
            (map snd (filter (\<lambda>(dateStr, _). namesWeekday jst 6 dateStr)
              (groupByDate saturdayHistory)))
            HolidaySaturdaySubstitute"
    using holiday_falls_back_to_saturday[OF tz target_0108_holiday saturday_no_holiday
        saturday_exists]
    by blast
  then have v: "predictDayuseRevenue jst cache2024 saturdayHistory (Some 1704675600000) =
       \<lparr>count = 2, revenue = 7500, avgPrice = 3750, hasData = True,
        basis = HolidaySaturdaySubstitute\<rparr>"
    by (simp only: saturday_average)
  have a: "list_all (\<lambda>r. \<not> isHolidaySync jst cache2024 (DateString (date r))) saturdayHistory"
    using saturday_no_holiday by (simp add: list_all_iff)
  have e: "list_ex (\<lambda>r. namesWeekday jst 6 (date r)) saturdayHistory"
    using saturday_exists by (simp add: list_ex_iff)
  show ?thesis
    using tz target_0108_holiday a e v by (intro conjI)
qed

text \<open>
  Claim C4 as stated, for any time zone, fails. Five hours behind UTC, with a target
  classified as a holiday and a history of one sale of 4000 dated Saturday 2024-01-06 and
  one of 9000 dated Sunday 2024-01-07, neither classified as a holiday, the program reads
  the Saturday as Friday and the Sunday as Saturday: the prediction is the Sunday's 9000,
  not the average of the Saturday, which is 4000.
\<close>

theorem holiday_falls_back_to_saturday_counterexample:
  "isHolidaySync est cache2024 (DateObject (Some 1704733200000))
   \<and> list_all (\<lambda>r. \<not> isHolidaySync est cache2024 (DateString (date r))) weekendHistory
   \<and> filter (\<lambda>r. namesWeekday est 6 (date r)) weekendHistory =
       [\<lparr>date = ''2024-01-06'', price = Some 4000\<rparr>]
   \<and> predictDayuseRevenue est cache2024 weekendHistory (Some 1704733200000) =
       \<lparr>count = 1, revenue = 9000, avgPrice = 9000, hasData = True,
        basis = HolidaySaturdaySubstitute\<rparr>
   \<and> predictDayuseRevenue est cache2024 weekendHistory (Some 1704733200000) \<noteq>
       dayAverage_spec (namesWeekday est 6) weekendHistory HolidaySaturdaySubstitute"
proof -
  have f: "filter (\<lambda>r. namesWeekday est 6 (date r)) weekendHistory =
       [\<lparr>date = ''2024-01-06'', price = Some 4000\<rparr>]"
    by (simp add: weekendHistory_def saturday_names)
  have "revenue (dayAverage_spec (namesWeekday est 6) weekendHistory HolidaySaturdaySubstitute)
        = Math_round (of_int 4000 / of_int 1)"
    by (simp add: dayAverage_spec_def f orZero_def Let_def)
  also have "\<dots> = 4000" by code_simp
  finally have r: "revenue (dayAverage_spec (namesWeekday est 6) weekendHistory
      HolidaySaturdaySubstitute) = 4000" .
  have d: "predictDayuseRevenue est cache2024 weekendHistory (Some 1704733200000) \<noteq>
       dayAverage_spec (namesWeekday est 6) weekendHistory HolidaySaturdaySubstitute"
  proof
    assume "predictDayuseRevenue est cache2024 weekendHistory (Some 1704733200000) =
       dayAverage_spec (namesWeekday est 6) weekendHistory HolidaySaturdaySubstitute"
    then have "revenue (predictDayuseRevenue est cache2024 weekendHistory (Some 1704733200000)) = 4000"
      using r by simp
    then show False by (simp add: est_weekend_prediction)
  qed
  have n: "list_all (\<lambda>r. \<not> isHolidaySync est cache2024 (DateString (date r))) weekendHistory"
    using est_weekend_no_holiday by (simp add: weekendHistory_def)
  show ?thesis
    using est_target_holiday n f est_weekend_prediction d by (intro conjI)
qed

text \<open>
  Claim C9, as amended. For a history with at least one record whose date string does not
  name a property that objects inherit from \<open>Object.prototype\<close>, the predicted count is
  at least 1, because every daily total counts at least one item; so the average price is
  the rounded quotient and not the 0 of the guard's other branch.
\<close>

theorem predict_count_pos:
  assumes "\<exists>r \<in> set h. \<not> objectPrototypeKey (date r)"
  shows "1 \<le> count (predictDayuseRevenue env cache h t)
    \<and> avgPrice (predictDayuseRevenue env cache h t) =
        Math_round (of_int (revenue (predictDayuseRevenue env cache h t))
                    / of_int (count (predictDayuseRevenue env cache h t)))"
proof -
  have ne: "h \<noteq> []" using assms by auto
  have g: "groupByDate h \<noteq> []" using assms by (simp add: groupByDate_nonempty)
  obtain xs b where xs: "xs \<noteq> []" "set xs \<subseteq> snd ` set (groupByDate h)"
    "predictDayuseRevenue env cache h t = calculateAverage xs b"
    using predict_cases[of env cache h t] ne g by auto
  have "\<forall>d \<in> set xs. 1 \<le> dailyTotal.count d"
    using xs(2) count_pos_groupByDate by fastforce
  then have c: "1 \<le> count (calculateAverage xs b)"
    by (rule calculateAverage_count_pos[OF xs(1)])
  then show ?thesis
    using calculateAverage_shape[of xs b] by (simp add: xs(3))
qed

theorem predict_count_pos_witness:
  "list_ex (\<lambda>r. \<not> objectPrototypeKey (date r)) mondayHistory
   \<and> 1 \<le> count (predictDayuseRevenue jst cache2024 mondayHistory (Some 1705885200000))
   \<and> avgPrice (predictDayuseRevenue jst cache2024 mondayHistory (Some 1705885200000)) =
       Math_round (of_int (revenue (predictDayuseRevenue jst cache2024 mondayHistory (Some 1705885200000)))
                   / of_int (count (predictDayuseRevenue jst cache2024 mondayHistory (Some 1705885200000))))"
proof -
  have ex: "\<exists>r \<in> set mondayHistory. \<not> objectPrototypeKey (date r)"
    using sample_histories_grouped(3) by (simp add: list_ex_iff)
  show ?thesis
    using sample_histories_grouped(3)
      predict_count_pos[OF ex, of jst cache2024 "Some 1705885200000"]
    by simp
qed

text \<open>
  Claim C9 as stated, for every history that is not empty, fails: for the history of one
  item dated \<open>constructor\<close> no daily total is formed, and the predicted count and the
  average price are 0.
\<close>

theorem predict_count_pos_counterexample:
  "constructorHistory \<noteq> []
   \<and> count (predictDayuseRevenue jst cache2024 constructorHistory (Some 1705885200000)) = 0
   \<and> avgPrice (predictDayuseRevenue jst cache2024 constructorHistory (Some 1705885200000)) = 0"
proof -
  have ne: "constructorHistory \<noteq> []" by (simp add: constructorHistory_def)
  show ?thesis using ne by (simp add: constructor_prediction)
qed

section \<open>Claims about the pricing\<close>

text \<open>
  Claim C6. A monthly target of 300000 over 30 days gives a daily target of 10000; 50 rooms
  of which 48 are booked leave 2; with a day-use revenue of 4000 (here the predicted
  revenue, no manual entry) the minimum price is the ceiling of 6000 / 2, which is 3000.
\<close>

theorem pricing_scenario:
  "dailyTarget 300000 30 = 10000
   \<and> dayuseRevenue None None 4000 = 4000
   \<and> remainingRooms 50 (Some 48) = 2
   \<and> minimumPrice (dailyTarget 300000 30) (dayuseRevenue None None 4000)
         (remainingRooms 50 (Some 48)) = 3000
   \<and> Math_ceil (6000 / 2) = 3000"
  by code_simp

text \<open>
  Claim C7. The number of remaining rooms is at least 1 whatever the number of rooms and
  the number of booked stays, also when the stays reach or exceed the rooms; so the
  divisor in the minimum price is never zero.
\<close>

theorem remainingRooms_at_least_one:
  "1 \<le> remainingRooms totalRooms stayCount
   \<and> (of_int (remainingRooms totalRooms stayCount) :: rat) \<noteq> 0"
  by (simp add: remainingRooms_def Math_max_def Let_def)

section \<open>Claims about the holiday table\<close>

lemma fetchHolidays_cached:
  "holidayCache st year = Some tbl \<Longrightarrow> fetchHolidays net year st = (tbl, st)"
  by (simp add: fetchHolidays_def)

lemma fetchHolidays_failed:
  "holidayCache st year = None \<Longrightarrow> fetchFails net year \<Longrightarrow>
   fetchHolidays net year st =
     ([], st\<lparr>requests := requests st @ [year], errorLog := errorLog st + 1\<rparr>)"
  by (auto simp: fetchHolidays_def fetchFails_def Let_def split: option.splits)

lemma isHolidaySync_uncached:
  "getFullYear env (toDate env d) = Some year \<Longrightarrow> cache year = None \<Longrightarrow>
   \<not> isHolidaySync env cache d"
  by (simp add: isHolidaySync_def Let_def)

lemma year_0108: "getFullYear jst (toDate jst (DateObject (Some 1704675600000))) = Some 2024"
  by (simp add: toDate_def getFullYear_def target_0108_day civil_19730)

lemma fresh_offline: "fetchHolidays offline 2024 freshState = ([], failedOnce)"
  by (simp add: fetchHolidays_def offline_def freshState_def failedOnce_def)

text \<open>
  Claim C5, as amended. A year that is cached is returned from the cache: no request is
  made and the state does not change. When the year is not cached and the fetch fails, the
  call logs one error, returns the empty table, and leaves the cache as it was: the year
  stays uncached, so the synchronous lookup with that cache answers "not a holiday" for
  every date of the year. The call returns a table in either case; it never raises.
\<close>

theorem fetchHolidays_cache_and_failure:
  "(holidayCache st year = Some tbl \<longrightarrow> fetchHolidays net year st = (tbl, st))
   \<and> (holidayCache st year = None \<and> fetchFails net year \<longrightarrow>
        fetchHolidays net year st =
          ([], st\<lparr>requests := requests st @ [year], errorLog := errorLog st + 1\<rparr>)
        \<and> holidayCache (snd (fetchHolidays net year st)) = holidayCache st
        \<and> (getFullYear env (toDate env d) = Some year \<longrightarrow>
             \<not> isHolidaySync env (holidayCache (snd (fetchHolidays net year st))) d))"
  using fetchHolidays_cached[of st year tbl net] fetchHolidays_failed[of st year net]
    isHolidaySync_uncached[of env d year "holidayCache st"]
  by auto

theorem fetchHolidays_cache_and_failure_witness:
  "holidayCache loadedState 2024 = Some holidays2024
   \<and> fetchHolidays offline 2024 loadedState = (holidays2024, loadedState)
   \<and> holidayCache freshState 2024 = None
   \<and> fetchFails offline 2024
   \<and> fetchHolidays offline 2024 freshState = ([], failedOnce)
   \<and> holidayCache failedOnce = holidayCache freshState
   \<and> getFullYear jst (toDate jst (DateObject (Some 1704675600000))) = Some 2024
   \<and> \<not> isHolidaySync jst (holidayCache failedOnce) (DateObject (Some 1704675600000))"
proof -
  have a: "holidayCache loadedState 2024 = Some holidays2024"
    by (simp add: loadedState_def cache2024_def)
  have b: "holidayCache freshState 2024 = None" by (simp add: freshState_def)
  have c: "fetchFails offline 2024" by (simp add: fetchFails_def offline_def)
  have r1: "fetchHolidays offline 2024 loadedState = (holidays2024, loadedState)"
    using a fetchHolidays_cache_and_failure[of loadedState 2024 holidays2024 offline jst
        "DateObject (Some 1704675600000)"]
    by blast
  have r2: "holidayCache (snd (fetchHolidays offline 2024 freshState)) = holidayCache freshState"
    and r3: "\<not> isHolidaySync jst (holidayCache (snd (fetchHolidays offline 2024 freshState)))
               (DateObject (Some 1704675600000))"
    using b c year_0108 fetchHolidays_cache_and_failure[of freshState 2024 holidays2024 offline jst
        "DateObject (Some 1704675600000)"]
    by blast+
  have s: "snd (fetchHolidays offline 2024 freshState) = failedOnce"
    by (simp add: fresh_offline)
  show ?thesis
    using a r1 b c fresh_offline r2[unfolded s] year_0108 r3[unfolded s]
    by (intro conjI)
qed

text \<open>
  Claim C5 as stated fails where it says that a failed load caches an empty table: after a
  failed load of 2024 the cache holds no table for 2024, a second load asks the network
  again, and once a later load succeeds the lookup for 2024-01-08 answers "holiday".
\<close>

theorem fetch_failure_counterexample:
  "holidayCache (snd (fetchHolidays offline 2024 freshState)) 2024 \<noteq> Some []
   \<and> requests (snd (fetchHolidays offline 2024 (snd (fetchHolidays offline 2024 freshState))))
       = [2024, 2024]
   \<and> isHolidaySync jst
        (holidayCache (preloadHolidays online2024 2024 (preloadHolidays offline 2024 freshState)))
        (DateObject (Some 1704675600000))"
proof -
  have f: "holidayCache failedOnce 2024 \<noteq> Some []"
    by (simp add: failedOnce_def)
  have g: "requests (snd (fetchHolidays offline 2024 failedOnce)) = [2024, 2024]"
    by (simp add: fetchHolidays_def offline_def failedOnce_def)
  have h: "holidayCache (snd (fetchHolidays online2024 2024 failedOnce)) = cache2024"
    by (simp add: fetchHolidays_def online2024_def ok_def cache2024_def failedOnce_def)
  show ?thesis
    using f g target_0108_holiday by (simp add: fresh_offline h preloadHolidays_def)
qed

section \<open>Merging by id\<close>




































section \<open>Claims about the merge\<close>







end
